theory Spec2Isabelle
  imports Complex_Main
begin

section \<open>Python values\<close>

text \<open>
  A Python float is a finite value, one of the two infinities, or NaN. Finite values are
  modelled by the real number they denote. The arithmetic of finite values is exact:
  rounding and overflow to infinity are not modelled, so a finite result of the model can
  differ from the double that Python computes in the last place, and the model does not
  raise where only the rounded value leaves the domain of \<open>math.sqrt\<close>. What the
  special values do is modelled as CPython does it:
  NaN propagates, \<open>inf - inf\<close> is NaN, every comparison with NaN is false, and
  \<open>math.sin\<close>, \<open>math.cos\<close> and \<open>math.sqrt\<close> raise \<open>ValueError\<close>
  outside their domain.
\<close>

datatype pyfloat = Fin real | PInf | NInf | NaN

datatype pyerror =
  UnicodeDecodeError | JSONDecodeError | AttributeError | KeyError
  | TypeError | ValueError | OverflowError | ZeroDivisionError

text \<open>The values \<open>json.loads\<close> can return, and the ones the session state holds.\<close>

datatype pyval =
  PNone | PBool bool | PInt int | PFloat pyfloat | PStr string
  | PList "pyval list" | PDict "(string \<times> pyval) list"

definition bind_e :: "pyerror + 'a \<Rightarrow> ('a \<Rightarrow> pyerror + 'b) \<Rightarrow> pyerror + 'b" where
  "bind_e r f = (case r of Inl e \<Rightarrow> Inl e | Inr x \<Rightarrow> f x)"

subsection \<open>Float arithmetic\<close>

fun fadd :: "pyfloat \<Rightarrow> pyfloat \<Rightarrow> pyfloat" where
  "fadd NaN _ = NaN"
| "fadd _ NaN = NaN"
| "fadd (Fin x) (Fin y) = Fin (x + y)"
| "fadd PInf NInf = NaN"
| "fadd NInf PInf = NaN"
| "fadd PInf _ = PInf"
| "fadd _ PInf = PInf"
| "fadd NInf _ = NInf"
| "fadd _ NInf = NInf"

fun fsub :: "pyfloat \<Rightarrow> pyfloat \<Rightarrow> pyfloat" where
  "fsub NaN _ = NaN"
| "fsub _ NaN = NaN"
| "fsub (Fin x) (Fin y) = Fin (x - y)"
| "fsub PInf PInf = NaN"
| "fsub NInf NInf = NaN"
| "fsub PInf _ = PInf"
| "fsub _ PInf = NInf"
| "fsub NInf _ = NInf"
| "fsub _ NInf = PInf"

fun fmul :: "pyfloat \<Rightarrow> pyfloat \<Rightarrow> pyfloat" where
  "fmul NaN _ = NaN"
| "fmul _ NaN = NaN"
| "fmul (Fin x) (Fin y) = Fin (x * y)"
| "fmul (Fin x) PInf = (if x = 0 then NaN else if 0 < x then PInf else NInf)"
| "fmul (Fin x) NInf = (if x = 0 then NaN else if 0 < x then NInf else PInf)"
| "fmul PInf (Fin y) = (if y = 0 then NaN else if 0 < y then PInf else NInf)"
| "fmul NInf (Fin y) = (if y = 0 then NaN else if 0 < y then NInf else PInf)"
| "fmul PInf PInf = PInf"
| "fmul PInf NInf = NInf"
| "fmul NInf PInf = NInf"
| "fmul NInf NInf = PInf"

text \<open>\<open>x / y\<close>: Python raises \<open>ZeroDivisionError\<close> for a zero divisor, whatever \<open>x\<close> is.\<close>

fun fdiv :: "pyfloat \<Rightarrow> pyfloat \<Rightarrow> pyerror + pyfloat" where
  "fdiv x (Fin y) =
     (if y = 0 then Inl ZeroDivisionError
      else Inr (case x of
                  Fin r \<Rightarrow> Fin (r / y)
                | PInf \<Rightarrow> (if 0 < y then PInf else NInf)
                | NInf \<Rightarrow> (if 0 < y then NInf else PInf)
                | NaN \<Rightarrow> NaN))"
| "fdiv NaN _ = Inr NaN"
| "fdiv _ NaN = Inr NaN"
| "fdiv (Fin _) _ = Inr (Fin 0)"
| "fdiv _ _ = Inr NaN"

text \<open>\<open>x ** 2\<close>\<close>

fun fpow2 :: "pyfloat \<Rightarrow> pyfloat" where
  "fpow2 (Fin x) = Fin (x\<^sup>2)"
| "fpow2 NaN = NaN"
| "fpow2 _ = PInf"

text \<open>\<open>x <= y\<close>\<close>

fun fle :: "pyfloat \<Rightarrow> pyfloat \<Rightarrow> bool" where
  "fle NaN _ = False"
| "fle _ NaN = False"
| "fle (Fin x) (Fin y) = (x \<le> y)"
| "fle NInf _ = True"
| "fle _ PInf = True"
| "fle _ _ = False"


subsection \<open>The functions of the \<open>math\<close> module that the dashboard calls\<close>

text \<open>\<open>math.radians(x)\<close> is \<open>x * (pi / 180)\<close>.\<close>

definition radians :: "pyfloat \<Rightarrow> pyfloat" where
  "radians x = fmul x (Fin (pi / 180))"

fun fsin :: "pyfloat \<Rightarrow> pyerror + pyfloat" where
  "fsin (Fin x) = Inr (Fin (sin x))"
| "fsin NaN = Inr NaN"
| "fsin _ = Inl ValueError"

fun fcos :: "pyfloat \<Rightarrow> pyerror + pyfloat" where
  "fcos (Fin x) = Inr (Fin (cos x))"
| "fcos NaN = Inr NaN"
| "fcos _ = Inl ValueError"

fun fsqrt :: "pyfloat \<Rightarrow> pyerror + pyfloat" where
  "fsqrt (Fin x) = (if x < 0 then Inl ValueError else Inr (Fin (sqrt x)))"
| "fsqrt NaN = Inr NaN"
| "fsqrt PInf = Inr PInf"
| "fsqrt NInf = Inl ValueError"

text \<open>The angle of the point \<open>(x, y)\<close>, in \<open>(-pi, pi]\<close>; 0 at the origin.\<close>

definition atan2 :: "real \<Rightarrow> real \<Rightarrow> real" where
  "atan2 y x =
     (if 0 < x then arctan (y / x)
      else if x < 0 then (if 0 \<le> y then arctan (y / x) + pi else arctan (y / x) - pi)
      else if 0 < y then pi / 2
      else if y < 0 then - (pi / 2)
      else 0)"

fun fatan2 :: "pyfloat \<Rightarrow> pyfloat \<Rightarrow> pyfloat" where
  "fatan2 NaN _ = NaN"
| "fatan2 _ NaN = NaN"
| "fatan2 (Fin y) (Fin x) = Fin (atan2 y x)"
| "fatan2 (Fin y) PInf = Fin 0"
| "fatan2 (Fin y) NInf = (if y < 0 then Fin (- pi) else Fin pi)"
| "fatan2 PInf (Fin x) = Fin (pi / 2)"
| "fatan2 NInf (Fin x) = Fin (- (pi / 2))"
| "fatan2 PInf PInf = Fin (pi / 4)"
| "fatan2 NInf PInf = Fin (- (pi / 4))"
| "fatan2 PInf NInf = Fin (3 * pi / 4)"
| "fatan2 NInf NInf = Fin (- (3 * pi / 4))"

section \<open>The distance between two points\<close>

text \<open>
  \<^verbatim>\<open>
  def haversine(lat1, lon1, lat2, lon2):
      R = 6371000
      phi1 = math.radians(lat1)
      phi2 = math.radians(lat2)
      dphi = math.radians(lat2 - lat1)
      dlambda = math.radians(lon2 - lon1)
      a = math.sin(dphi/2)**2 + math.cos(phi1)*math.cos(phi2)*math.sin(dlambda/2)**2
      c = 2 * math.atan2(math.sqrt(a), math.sqrt(1-a))
      return R * c
  \<close>
  The calls that can raise are bound in the order in which Python evaluates them.
\<close>

definition haversine :: "pyfloat \<Rightarrow> pyfloat \<Rightarrow> pyfloat \<Rightarrow> pyfloat \<Rightarrow> pyerror + pyfloat" where
  "haversine lat1 lon1 lat2 lon2 =
     (let R = Fin 6371000;
          phi1 = radians lat1;
          phi2 = radians lat2;
          dphi = radians (fsub lat2 lat1);
          dlambda = radians (fsub lon2 lon1)
      in bind_e (fdiv dphi (Fin 2)) (\<lambda>h1.
         bind_e (fsin h1) (\<lambda>s1.
         bind_e (fcos phi1) (\<lambda>c1.
         bind_e (fcos phi2) (\<lambda>c2.
         bind_e (fdiv dlambda (Fin 2)) (\<lambda>h2.
         bind_e (fsin h2) (\<lambda>s2.
           let a = fadd (fpow2 s1) (fmul (fmul c1 c2) (fpow2 s2))
           in bind_e (fsqrt a) (\<lambda>q1.
              bind_e (fsqrt (fsub (Fin 1) a)) (\<lambda>q2.
                let c = fmul (Fin 2) (fatan2 q1 q2)
                in Inr (fmul R c))))))))))"


section \<open>Configuration and session state\<close>

record intersection =
  inter_name :: string
  inter_lat :: pyfloat
  inter_lng :: pyfloat

definition INTERSECTIONS :: "intersection list" where
  "INTERSECTIONS =
     [\<lparr>inter_name = ''Intersection A'', inter_lat = Fin 12.9716, inter_lng = Fin 77.5946\<rparr>,
      \<lparr>inter_name = ''Intersection B'', inter_lat = Fin 12.9750, inter_lng = Fin 77.5900\<rparr>,
      \<lparr>inter_name = ''Intersection C'', inter_lat = Fin 12.9680, inter_lng = Fin 77.6000\<rparr>]"

definition GREEN_DISTANCE_METERS :: pyfloat where
  "GREEN_DISTANCE_METERS = Fin 200.0"

text \<open>
  The part of \<open>st.session_state\<close> that the callbacks use: the \<open>ambulance\<close> dict, the
  \<open>lights\<close> dict (intersection name to \<open>"red"\<close> or \<open>"green"\<close>) and the connection flag.
\<close>

record session =
  ambulance :: "string \<rightharpoonup> pyval"
  lights :: "string \<rightharpoonup> string"
  mqtt_connected :: bool

text \<open>
  \<^verbatim>\<open>
  st.session_state.ambulance = {"lat": 12.9716, "lng": 77.5946, "time": None, "speed": None}
  st.session_state.lights = {it["name"]: "red" for it in INTERSECTIONS}
  st.session_state.mqtt_connected = False
  \<close>
\<close>

definition session_init :: session where
  "session_init =
     \<lparr>ambulance = [''lat'' \<mapsto> PFloat (Fin 12.9716), ''lng'' \<mapsto> PFloat (Fin 77.5946),
                   ''time'' \<mapsto> PNone, ''speed'' \<mapsto> PNone],
      lights = map_of (map (\<lambda>it. (inter_name it, ''red'')) INTERSECTIONS),
      mqtt_connected = False\<rparr>"

section \<open>The message callback\<close>

text \<open>
  \<open>float(v)\<close>. A float is returned as it is; an int (and a bool, which is an int) is
  converted, and an int too large for a double raises \<open>OverflowError\<close>. The int is
  kept exact where Python rounds it to the nearest double. A string is
  parsed, and the parser \<open>pf\<close> (the library's, a parameter here) gives \<open>None\<close> where
  Python raises \<open>ValueError\<close>; \<open>None\<close>, a list and a dict raise \<open>TypeError\<close>.
\<close>

fun py_float :: "(string \<Rightarrow> pyfloat option) \<Rightarrow> pyval \<Rightarrow> pyerror + pyfloat" where
  "py_float pf (PFloat x) = Inr x"
| "py_float pf (PInt i) =
     (if \<bar>i\<bar> < 2 ^ 1024 - 2 ^ 970 then Inr (Fin (of_int i)) else Inl OverflowError)"
| "py_float pf (PBool b) = Inr (Fin (if b then 1 else 0))"
| "py_float pf (PStr t) = (case pf t of None \<Rightarrow> Inl ValueError | Some x \<Rightarrow> Inr x)"
| "py_float pf _ = Inl TypeError"

text \<open>\<open>d[k]\<close> on a dict of the session state.\<close>

definition subscript :: "(string \<rightharpoonup> pyval) \<Rightarrow> string \<Rightarrow> pyerror + pyval" where
  "subscript d k = (case d k of None \<Rightarrow> Inl KeyError | Some v \<Rightarrow> Inr v)"

text \<open>
  \<open>data.get(k, dflt)\<close>. Only a dict has a \<open>get\<close> method; the attribute is looked up
  before the default is evaluated, and the default is evaluated whether or not the key is
  present. A \<open>PDict\<close> lists the items of the dict, one per key.
\<close>

definition py_get :: "pyval \<Rightarrow> string \<Rightarrow> pyerror + pyval \<Rightarrow> pyerror + pyval" where
  "py_get data k dflt =
     (case data of
        PDict kvs \<Rightarrow>
          bind_e dflt (\<lambda>d. Inr (case map_of kvs k of None \<Rightarrow> d | Some v \<Rightarrow> v))
      | _ \<Rightarrow> Inl AttributeError)"

text \<open>
  The loop over the intersections. It stores into \<open>lights\<close> as it goes, so when
  \<open>haversine\<close> raises, the lights already stored stay stored. The result is the dict
  and the exception that ended the loop, if one did.
  \<^verbatim>\<open>
  for inter in INTERSECTIONS:
      d = haversine(lat, lng, inter["lat"], inter["lng"])
      if d <= GREEN_DISTANCE_METERS:
          st.session_state.lights[inter["name"]] = "green"
      else:
          st.session_state.lights[inter["name"]] = "red"
  \<close>
\<close>

fun update_lights ::
  "pyfloat \<Rightarrow> pyfloat \<Rightarrow> intersection list \<Rightarrow> (string \<rightharpoonup> string)
   \<Rightarrow> (string \<rightharpoonup> string) \<times> pyerror option" where
  "update_lights lat lng [] L = (L, None)"
| "update_lights lat lng (intr # rest) L =
     (case haversine lat lng (inter_lat intr) (inter_lng intr) of
        Inl e \<Rightarrow> (L, Some e)
      | Inr d \<Rightarrow>
          if fle d GREEN_DISTANCE_METERS
          then update_lights lat lng rest (L(inter_name intr \<mapsto> ''green''))
          else update_lights lat lng rest (L(inter_name intr \<mapsto> ''red'')))"

text \<open>
  \<^verbatim>\<open>
  def on_message(client, userdata, msg):
      try:
          payload = msg.payload.decode("utf-8")
          data = json.loads(payload)
          lat = float(data.get("lat", st.session_state.ambulance["lat"]))
          lng = float(data.get("lng", st.session_state.ambulance["lng"]))
          ts = data.get("time", None)
          st.session_state.ambulance = {"lat": lat, "lng": lng, "time": ts}
          for inter in INTERSECTIONS: ...
          print("Received:", st.session_state.ambulance)
      except Exception as e:
          print("Error parsing MQTT message:", e)
  \<close>
  The argument \<open>msg\<close> is the outcome of \<open>json.loads(msg.payload.decode("utf-8"))\<close>:
  \<open>Inl e\<close> when decoding or parsing raises \<open>e\<close>, \<open>Inr data\<close> otherwise. The
  callback never raises: it returns the new session state and the exception that the
  handler caught, \<open>None\<close> when the body ran to its end. \<open>read_fields\<close> is the
  body up to the assignment of \<open>ts\<close>: nothing is stored before that point.
\<close>

definition read_fields ::
  "(string \<Rightarrow> pyfloat option) \<Rightarrow> session \<Rightarrow> pyerror + pyval
   \<Rightarrow> pyerror + pyfloat \<times> pyfloat \<times> pyval" where
  "read_fields pf s msg =
     bind_e msg (\<lambda>data.
     bind_e (py_get data ''lat'' (subscript (ambulance s) ''lat'')) (\<lambda>v1.
     bind_e (py_float pf v1) (\<lambda>lat.
     bind_e (py_get data ''lng'' (subscript (ambulance s) ''lng'')) (\<lambda>v2.
     bind_e (py_float pf v2) (\<lambda>lng.
     bind_e (py_get data ''time'' (Inr PNone)) (\<lambda>ts.
       Inr (lat, lng, ts)))))))"

definition on_message ::
  "(string \<Rightarrow> pyfloat option) \<Rightarrow> session \<Rightarrow> pyerror + pyval \<Rightarrow> session \<times> pyerror option" where
  "on_message pf s msg =
     (case read_fields pf s msg of
        Inl e \<Rightarrow> (s, Some e)
      | Inr (lat, lng, ts) \<Rightarrow>
          (let s1 = s\<lparr>ambulance :=
                       [''lat'' \<mapsto> PFloat lat, ''lng'' \<mapsto> PFloat lng, ''time'' \<mapsto> ts]\<rparr>
           in case update_lights lat lng INTERSECTIONS (lights s1) of
                (L, r) \<Rightarrow> (s1\<lparr>lights := L\<rparr>, r)))"

text \<open>The client delivers the messages one after the other.\<close>

fun run :: "(string \<Rightarrow> pyfloat option) \<Rightarrow> session \<Rightarrow> (pyerror + pyval) list \<Rightarrow> session" where
  "run pf s [] = s"
| "run pf s (m # ms) = run pf (fst (on_message pf s m)) ms"

section \<open>The light invariant\<close>

text \<open>
  The lights agree with the stored position: the position holds two floats, the distance
  to every intersection can be computed, and the light of the intersection is green when
  the distance is at most the threshold and red otherwise.
\<close>

definition lights_consistent :: "session \<Rightarrow> bool" where
  "lights_consistent s =
     (case (ambulance s ''lat'', ambulance s ''lng'') of
        (Some (PFloat lat), Some (PFloat lng)) \<Rightarrow>
          (\<forall>it \<in> set INTERSECTIONS.
             case haversine lat lng (inter_lat it) (inter_lng it) of
               Inl e \<Rightarrow> False
             | Inr d \<Rightarrow>
                 lights s (inter_name it)
                 = Some (if fle d GREEN_DISTANCE_METERS then ''green'' else ''red''))
      | _ \<Rightarrow> False)"

text \<open>
  Every message of the list either runs to its end or is dropped with the state as it
  was, when the messages are processed in order from \<open>s\<close>.
\<close>

fun all_clean :: "(string \<Rightarrow> pyfloat option) \<Rightarrow> session \<Rightarrow> (pyerror + pyval) list \<Rightarrow> bool" where
  "all_clean pf s [] = True"
| "all_clean pf s (m # ms) =
     (case on_message pf s m of
        (s', r) \<Rightarrow> (r = None \<or> s' = s) \<and> all_clean pf s' ms)"

section \<open>Facts about the distance\<close>

text \<open>
  In exact arithmetic the argument of both square roots lies between 0 and 1, whatever
  the coordinates are, so on finite coordinates \<open>haversine\<close> returns a finite distance.
  This is a fact of the exact model only. In doubles the rounded \<open>a\<close> can exceed 1
  for antipodal points: at \<open>haversine(-82.0, -180.0, 82.0, 0.0)\<close> the sum rounds to
  \<open>1 + 2 ** -52\<close>, \<open>1 - a\<close> is negative and \<open>math.sqrt\<close> raises
  \<open>ValueError\<close>. The last lemma of this section is that step: the square root of
  \<open>1 - a\<close> raises as soon as \<open>a\<close> is above 1.
\<close>

lemma hav_a_bounds:
  fixes p1 p2 l :: real
  defines "A \<equiv> (sin ((p2 - p1) / 2))\<^sup>2 + cos p1 * cos p2 * (sin (l / 2))\<^sup>2"
  shows "0 \<le> A" and "A \<le> 1"
proof -
  define t where "t = (sin (l / 2))\<^sup>2"
  define c where "c = cos (p2 - p1)"
  define e where "e = cos (p2 + p1)"
  have t: "0 \<le> t" "t \<le> 1" 
    by (simp_all add: t_def abs_square_le_1)
  have c: "- 1 \<le> c" "c \<le> 1" by (simp_all add: c_def)
  have e: "- 1 \<le> e" "e \<le> 1" by (simp_all add: e_def)
  have s: "(sin ((p2 - p1) / 2))\<^sup>2 = (1 - c) / 2"
  proof -
    have "2 * ((p2 - p1) / 2) = p2 - p1" by simp
    then have "c = 1 - 2 * (sin ((p2 - p1) / 2))\<^sup>2"
      unfolding c_def using cos_double_sin [of "(p2 - p1) / 2"] by metis
    then show ?thesis by simp
  qed
  have p: "cos p1 * cos p2 = (c + e) / 2"
    unfolding c_def e_def by (simp add: cos_add cos_diff)
  have A: "A = (1 - (1 - t) * c + t * e) / 2"
    unfolding A_def s p t_def [symmetric] by (simp add: field_simps)
  have 1: "(1 - t) * c \<le> (1 - t) * 1" using t c by (intro mult_left_mono) auto
  have 2: "(1 - t) * (- 1) \<le> (1 - t) * c" using t c by (intro mult_left_mono) auto
  have 3: "t * e \<le> t * 1" using t e by (intro mult_left_mono) auto
  have 4: "t * (- 1) \<le> t * e" using t e by (intro mult_left_mono) auto
  show "0 \<le> A" using 1 4 unfolding A by simp
  show "A \<le> 1" using 2 3 unfolding A by simp
qed


lemma haversine_Fin_eq:
  "haversine (Fin lat1) (Fin lon1) (Fin lat2) (Fin lon2) =
     Inr (Fin (6371000 * (2 * atan2
       (sqrt ((sin ((lat2 - lat1) * (pi / 180) / 2))\<^sup>2
              + cos (lat1 * (pi / 180)) * cos (lat2 * (pi / 180))
                * (sin ((lon2 - lon1) * (pi / 180) / 2))\<^sup>2))
       (sqrt (1 - ((sin ((lat2 - lat1) * (pi / 180) / 2))\<^sup>2
              + cos (lat1 * (pi / 180)) * cos (lat2 * (pi / 180))
                * (sin ((lon2 - lon1) * (pi / 180) / 2))\<^sup>2))))))"
proof -
  have d: "(lat2 - lat1) * (pi / 180) = lat2 * (pi / 180) - lat1 * (pi / 180)"
    by (simp add: left_diff_distrib)
  have b: "\<not> (sin ((lat2 - lat1) * (pi / 180) / 2))\<^sup>2
              + cos (lat1 * (pi / 180)) * cos (lat2 * (pi / 180))
                * (sin ((lon2 - lon1) * (pi / 180) / 2))\<^sup>2 < 0"
       "\<not> 1 - ((sin ((lat2 - lat1) * (pi / 180) / 2))\<^sup>2
              + cos (lat1 * (pi / 180)) * cos (lat2 * (pi / 180))
                * (sin ((lon2 - lon1) * (pi / 180) / 2))\<^sup>2) < 0"
    unfolding d not_less
    using hav_a_bounds [of "lat2 * (pi / 180)" "lat1 * (pi / 180)" "(lon2 - lon1) * (pi / 180)"]
    by simp_all
  show ?thesis
    unfolding haversine_def radians_def Let_def bind_e_def
    using b by simp
qed

lemma haversine_same: "haversine (Fin lat) (Fin lon) (Fin lat) (Fin lon) = Inr (Fin 0)"
  by (simp add: haversine_Fin_eq atan2_def)



lemma sqrt_one_minus_raises: "1 < a \<Longrightarrow> fsqrt (fsub (Fin 1) (Fin a)) = Inl ValueError"
  by simp

section \<open>Facts about the callback\<close>

lemma on_message_Inl:
  "read_fields pf s msg = Inl e \<Longrightarrow> on_message pf s msg = (s, Some e)"
  by (simp add: on_message_def)

lemma on_message_Inr:
  "read_fields pf s msg = Inr (lat, lng, ts) \<Longrightarrow>
   on_message pf s msg =
     (s\<lparr>ambulance := [''lat'' \<mapsto> PFloat lat, ''lng'' \<mapsto> PFloat lng, ''time'' \<mapsto> ts],
        lights := fst (update_lights lat lng INTERSECTIONS (lights s))\<rparr>,
      snd (update_lights lat lng INTERSECTIONS (lights s)))"
  by (simp add: on_message_def Let_def split: prod.splits)

lemma update_lights_other:
  "n \<notin> inter_name ` set its \<Longrightarrow> fst (update_lights lat lng its L) n = L n"
  by (induction its arbitrary: L) (auto split: sum.splits)

lemma update_lights_done:
  "update_lights lat lng its L = (L', None) \<Longrightarrow> distinct (map inter_name its) \<Longrightarrow>
   it \<in> set its \<Longrightarrow>
   \<exists>d. haversine lat lng (inter_lat it) (inter_lng it) = Inr d
       \<and> L' (inter_name it) = Some (if fle d GREEN_DISTANCE_METERS then ''green'' else ''red'')"
proof (induction its arbitrary: L)
  case Nil
  then show ?case by simp
next
  case (Cons a its)
  from Cons.prems(1) obtain d where d: "haversine lat lng (inter_lat a) (inter_lng a) = Inr d"
    by (cases "haversine lat lng (inter_lat a) (inter_lng a)") auto
  define L1 where "L1 = L(inter_name a \<mapsto> (if fle d GREEN_DISTANCE_METERS then ''green'' else ''red''))"
  from Cons.prems(1) d have rest: "update_lights lat lng its L1 = (L', None)"
    by (auto simp: L1_def split: if_splits)
  show ?case
  proof (cases "it = a")
    case True
    from Cons.prems(2) have "inter_name a \<notin> inter_name ` set its" by simp
    from update_lights_other [OF this, of lat lng L1] rest
    have "L' (inter_name a) = L1 (inter_name a)" by simp
    with d True show ?thesis by (simp add: L1_def)
  next
    case False
    with Cons.prems have "it \<in> set its" "distinct (map inter_name its)" by auto
    from Cons.IH [OF rest this(2) this(1)] show ?thesis .
  qed
qed

lemma INTERSECTIONS_distinct: "distinct (map inter_name INTERSECTIONS)"
  by (simp add: INTERSECTIONS_def)

lemma INTERSECTIONS_finite:
  "\<forall>it \<in> set INTERSECTIONS.
     inter_lat it \<notin> {PInf, NInf, NaN} \<and> inter_lng it \<notin> {PInf, NInf, NaN}"
  by (simp add: INTERSECTIONS_def)

lemma update_lights_finite:
  "\<forall>it \<in> set its.
     inter_lat it \<notin> {PInf, NInf, NaN} \<and> inter_lng it \<notin> {PInf, NInf, NaN} \<Longrightarrow>
   snd (update_lights (Fin a) (Fin b) its L) = None"
proof (induction its arbitrary: L)
  case Nil
  then show ?case by simp
next
  case (Cons i its)
  then obtain x y where xy: "inter_lat i = Fin x" "inter_lng i = Fin y"
    by (cases "inter_lat i"; cases "inter_lng i") auto
  from Cons have rest: "snd (update_lights (Fin a) (Fin b) its L1) = None" for L1 by simp
  show ?case by (simp add: xy haversine_Fin_eq rest)
qed

lemma on_message_finite:
  "read_fields pf s msg = Inr (Fin a, Fin b, ts) \<Longrightarrow> snd (on_message pf s msg) = None"
  using update_lights_finite [of INTERSECTIONS a b "lights s"] INTERSECTIONS_finite
  by (simp add: on_message_Inr)

lemma on_message_done:
  assumes "on_message pf s msg = (s', None)"
  shows "\<exists>lat lng ts. read_fields pf s msg = Inr (lat, lng, ts)
           \<and> ambulance s' = [''lat'' \<mapsto> PFloat lat, ''lng'' \<mapsto> PFloat lng, ''time'' \<mapsto> ts]
           \<and> (\<forall>it \<in> set INTERSECTIONS.
                \<exists>d. haversine lat lng (inter_lat it) (inter_lng it) = Inr d
                  \<and> lights s' (inter_name it)
                    = Some (if fle d GREEN_DISTANCE_METERS then ''green'' else ''red''))"
proof (cases "read_fields pf s msg")
  case (Inl e)
  with assms show ?thesis by (simp add: on_message_Inl)
next
  case (Inr t)
  obtain lat lng ts where t: "t = (lat, lng, ts)" by (cases t) auto
  note rf = Inr [unfolded t]
  from assms on_message_Inr [OF rf]
  have amb: "ambulance s' = [''lat'' \<mapsto> PFloat lat, ''lng'' \<mapsto> PFloat lng, ''time'' \<mapsto> ts]"
    and ul: "update_lights lat lng INTERSECTIONS (lights s) = (lights s', None)"
    by (auto simp: prod_eq_iff)
  from update_lights_done [OF ul INTERSECTIONS_distinct] rf amb show ?thesis by blast
qed

lemma on_message_done_consistent:
  assumes "on_message pf s msg = (s', None)"
  shows "lights_consistent s'"
proof -
  from on_message_done [OF assms] obtain lat lng ts where
    amb: "ambulance s' = [''lat'' \<mapsto> PFloat lat, ''lng'' \<mapsto> PFloat lng, ''time'' \<mapsto> ts]"
    and L: "\<forall>it \<in> set INTERSECTIONS.
                \<exists>d. haversine lat lng (inter_lat it) (inter_lng it) = Inr d
                  \<and> lights s' (inter_name it)
                    = Some (if fle d GREEN_DISTANCE_METERS then ''green'' else ''red'')"
    by blast
  have "ambulance s' ''lat'' = Some (PFloat lat)" "ambulance s' ''lng'' = Some (PFloat lng)"
    by (simp_all add: amb)
  then show ?thesis
    unfolding lights_consistent_def using L by (auto split: sum.splits)
qed

lemma run_consistent:
  "lights_consistent s \<Longrightarrow> all_clean pf s ms \<Longrightarrow> lights_consistent (run pf s ms)"
proof (induction ms arbitrary: s)
  case Nil
  then show ?case by simp
next
  case (Cons m ms)
  obtain s' r where om: "on_message pf s m = (s', r)" by (cases "on_message pf s m") auto
  from Cons.prems(2) om have r: "r = None \<or> s' = s" and ac: "all_clean pf s' ms" by auto
  have "lights_consistent s'"
  proof (cases "r = None")
    case True
    with om show ?thesis using on_message_done_consistent by blast
  next
    case False
    with r Cons.prems(1) show ?thesis by simp
  qed
  from Cons.IH [OF this ac] om show ?case by simp
qed

lemma read_fields_sample:
  "read_fields pf session_init
     (Inr (PDict [(''lat'', PFloat (Fin 12.9716)), (''lng'', PFloat (Fin 77.5946)),
                  (''time'', PStr ''t1'')]))
   = Inr (Fin 12.9716, Fin 77.5946, PStr ''t1'')"
  by (simp add: read_fields_def bind_e_def py_get_def subscript_def session_init_def)



lemma on_message_sample:
  "on_message pf session_init
     (Inr (PDict [(''lat'', PFloat (Fin 12.9716)), (''lng'', PFloat (Fin 77.5946)),
                  (''time'', PStr ''t1'')]))
   = (fst (on_message pf session_init
        (Inr (PDict [(''lat'', PFloat (Fin 12.9716)), (''lng'', PFloat (Fin 77.5946)),
                     (''time'', PStr ''t1'')]))), None)"
  using on_message_finite [OF read_fields_sample, of pf] by (simp add: prod_eq_iff)

lemma ambulance_sample:
  "ambulance (fst (on_message pf session_init
        (Inr (PDict [(''lat'', PFloat (Fin 12.9716)), (''lng'', PFloat (Fin 77.5946)),
                     (''time'', PStr ''t1'')]))))
   = [''lat'' \<mapsto> PFloat (Fin 12.9716), ''lng'' \<mapsto> PFloat (Fin 77.5946),
      ''time'' \<mapsto> PStr ''t1'']"
  by (subst on_message_Inr [OF read_fields_sample]) simp

lemma Intersection_A:
  "\<lparr>inter_name = ''Intersection A'', inter_lat = Fin 12.9716, inter_lng = Fin 77.5946\<rparr>
   \<in> set INTERSECTIONS"
  by (simp add: INTERSECTIONS_def)

lemma read_fields_dict:
  assumes "ambulance s ''lat'' = Some u" and "ambulance s ''lng'' = Some w"
  shows "read_fields pf s (Inr (PDict kvs)) =
     bind_e (py_float pf (case map_of kvs ''lat'' of None \<Rightarrow> u | Some v \<Rightarrow> v)) (\<lambda>lat.
     bind_e (py_float pf (case map_of kvs ''lng'' of None \<Rightarrow> w | Some v \<Rightarrow> v)) (\<lambda>lng.
       Inr (lat, lng, case map_of kvs ''time'' of None \<Rightarrow> PNone | Some t \<Rightarrow> t)))"
  by (simp add: read_fields_def bind_e_def py_get_def subscript_def assms split: sum.splits)

lemma ambulance_stored:
  "read_fields pf s msg = Inr (lat, lng, ts) \<Longrightarrow>
   ambulance (fst (on_message pf s msg))
   = [''lat'' \<mapsto> PFloat lat, ''lng'' \<mapsto> PFloat lng, ''time'' \<mapsto> ts]"
  by (simp add: on_message_Inr)

lemma on_message_speed:
  "''speed'' \<notin> dom (ambulance s) \<Longrightarrow> ''speed'' \<notin> dom (ambulance (fst (on_message pf s m)))"
proof (cases "read_fields pf s m")
  case (Inl e)
  assume "''speed'' \<notin> dom (ambulance s)"
  with Inl show ?thesis by (simp add: on_message_Inl)
next
  case (Inr t)
  obtain lat lng ts where "t = (lat, lng, ts)" by (cases t) auto
  with Inr show ?thesis by (simp add: on_message_Inr)
qed

lemma run_speed:
  "''speed'' \<notin> dom (ambulance s) \<Longrightarrow> ''speed'' \<notin> dom (ambulance (run pf s ms))"
  by (induction ms arbitrary: s) (simp_all add: on_message_speed)

text \<open>
  In every state reached from the initial one, both stored coordinates are floats, so
  \<open>float\<close> never fails on a coordinate that a message leaves out.
\<close>

lemma on_message_position_floats:
  assumes "\<exists>a b. ambulance s ''lat'' = Some (PFloat a) \<and> ambulance s ''lng'' = Some (PFloat b)"
  shows "\<exists>a b. ambulance (fst (on_message pf s m)) ''lat'' = Some (PFloat a)
              \<and> ambulance (fst (on_message pf s m)) ''lng'' = Some (PFloat b)"
proof (cases "read_fields pf s m")
  case (Inl e)
  with assms show ?thesis by (simp add: on_message_Inl)
next
  case (Inr t)
  obtain lat lng ts where "t = (lat, lng, ts)" by (cases t) auto
  with Inr show ?thesis by (simp add: on_message_Inr)
qed

lemma run_position_floats:
  "\<exists>a b. ambulance s ''lat'' = Some (PFloat a) \<and> ambulance s ''lng'' = Some (PFloat b) \<Longrightarrow>
   \<exists>a b. ambulance (run pf s ms) ''lat'' = Some (PFloat a)
        \<and> ambulance (run pf s ms) ''lng'' = Some (PFloat b)"
proof (induction ms arbitrary: s)
  case Nil
  then show ?case by simp
next
  case (Cons m ms)
  from Cons.IH [OF on_message_position_floats [OF Cons.prems]] show ?case by simp
qed

lemma reachable_position_floats:
  "\<exists>a b. ambulance (run pf session_init ms) ''lat'' = Some (PFloat a)
        \<and> ambulance (run pf session_init ms) ''lng'' = Some (PFloat b)"
  by (rule run_position_floats) (simp add: session_init_def)

text \<open>
  Python's \<open>json.loads\<close> accepts \<open>Infinity\<close>. An infinite coordinate is stored, then
  \<open>math.sin\<close> raises in the first call of \<open>haversine\<close> and the handler catches it:
  the position has changed and no light has been recomputed.
\<close>

lemma on_message_infinite_latitude:
  "on_message pf session_init (Inr (PDict [(''lat'', PFloat PInf)]))
   = (session_init\<lparr>ambulance := [''lat'' \<mapsto> PFloat PInf, ''lng'' \<mapsto> PFloat (Fin 77.5946),
                                   ''time'' \<mapsto> PNone]\<rparr>,
      Some ValueError)"
  by (simp add: on_message_def read_fields_def py_get_def subscript_def session_init_def
      INTERSECTIONS_def haversine_def radians_def bind_e_def)

lemma initial_lights_red:
  "\<forall>it \<in> set INTERSECTIONS. lights session_init (inter_name it) = Some ''red''"
  by (simp add: session_init_def INTERSECTIONS_def)

section \<open>The claims\<close>

subsection \<open>C1: the light invariant\<close>

text \<open>
  C1, as stated, says that at every observation point, the initial state included, the
  light of every intersection is green exactly when the stored position is within the
  threshold of it. The initial state refutes it: the default position is the position of
  Intersection A, at distance 0, and the default light of Intersection A is red.
\<close>

theorem initial_lights_counterexample: "\<not> lights_consistent session_init"
proof
  assume c: "lights_consistent session_init"
  have amb: "ambulance session_init ''lat'' = Some (PFloat (Fin 12.9716))"
    "ambulance session_init ''lng'' = Some (PFloat (Fin 77.5946))"
    by (simp_all add: session_init_def)
  have A: "\<lparr>inter_name = ''Intersection A'', inter_lat = Fin 12.9716,
             inter_lng = Fin 77.5946\<rparr> \<in> set INTERSECTIONS"
    by (simp add: INTERSECTIONS_def)
  have L: "lights session_init ''Intersection A'' = Some ''red''"
    by (simp add: session_init_def INTERSECTIONS_def)
  note all = c [unfolded lights_consistent_def amb, simplified]
  from bspec [OF all A] show False
    by (simp add: haversine_same L GREEN_DISTANCE_METERS_def)
qed

text \<open>
  C1, amended: in the initial state every light is red, whatever the distance. Once a
  message has been processed to its end, the invariant holds, and it goes on holding
  between messages for as long as every later message either is processed to its end too
  or is dropped with the state unchanged.
\<close>

theorem lights_consistent_after_update:
  "(\<forall>it \<in> set INTERSECTIONS. lights session_init (inter_name it) = Some ''red'')
   \<and> (snd (on_message pf s m) = None \<and> all_clean pf (fst (on_message pf s m)) ms
        \<longrightarrow> lights_consistent (run pf s (m # ms)))"
proof (intro conjI impI)
  show "\<forall>it \<in> set INTERSECTIONS. lights session_init (inter_name it) = Some ''red''"
    by (rule initial_lights_red)
next
  assume a: "snd (on_message pf s m) = None \<and> all_clean pf (fst (on_message pf s m)) ms"
  then have "on_message pf s m = (fst (on_message pf s m), None)"
    by (simp add: prod_eq_iff)
  then have "lights_consistent (fst (on_message pf s m))" by (rule on_message_done_consistent)
  from run_consistent [OF this] a show "lights_consistent (run pf s (m # ms))" by simp
qed

text \<open>
  C1, witness: the three initial lights are red. From the initial state, a message at the
  position of Intersection A is processed to its end, a payload that is not JSON follows
  and is dropped, and the invariant holds afterwards.
\<close>

theorem lights_consistent_after_update_witness:
  "lights session_init ''Intersection A'' = Some ''red''
   \<and> lights session_init ''Intersection B'' = Some ''red''
   \<and> lights session_init ''Intersection C'' = Some ''red''
   \<and> snd (on_message (\<lambda>t. None) session_init
         (Inr (PDict [(''lat'', PFloat (Fin 12.9716)), (''lng'', PFloat (Fin 77.5946)),
                      (''time'', PStr ''t1'')]))) = None
   \<and> lights_consistent (run (\<lambda>t. None) session_init
         [Inr (PDict [(''lat'', PFloat (Fin 12.9716)), (''lng'', PFloat (Fin 77.5946)),
                      (''time'', PStr ''t1'')]),
          Inl JSONDecodeError])"
proof -
  let ?m = "Inr (PDict [(''lat'', PFloat (Fin 12.9716)), (''lng'', PFloat (Fin 77.5946)),
                      (''time'', PStr ''t1'')])"
  note inst = lights_consistent_after_update [of "\<lambda>t. None" session_init ?m "[Inl JSONDecodeError]"]
  have ok: "snd (on_message (\<lambda>t. None) session_init ?m) = None"
    by (rule on_message_finite [OF read_fields_sample])
  have "read_fields (\<lambda>t. None) s1 (Inl JSONDecodeError) = Inl JSONDecodeError" for s1
    by (simp add: read_fields_def bind_e_def)
  then have ac: "all_clean (\<lambda>t. None) (fst (on_message (\<lambda>t. None) session_init ?m))
                   [Inl JSONDecodeError]"
    by (simp add: on_message_Inl)
  from inst ok ac have c: "lights_consistent (run (\<lambda>t. None) session_init [?m, Inl JSONDecodeError])"
    by blast
  from inst have "\<forall>it \<in> set INTERSECTIONS. lights session_init (inter_name it) = Some ''red''"
    by blast
  then have r: "lights session_init ''Intersection A'' = Some ''red''
      \<and> lights session_init ''Intersection B'' = Some ''red''
      \<and> lights session_init ''Intersection C'' = Some ''red''"
    by (simp add: INTERSECTIONS_def)
  from r ok c show ?thesis by blast
qed

subsection \<open>C2: a malformed message is dropped whole\<close>



subsection \<open>C3: the threshold is inclusive\<close>

text \<open>
  C3: after a message has been processed, the light of an intersection is green exactly
  when the distance computed for it is at most the threshold, and red exactly when it is
  not. A distance of exactly 200 gives green, and any finite distance above 200 gives red.
\<close>

theorem threshold_inclusive:
  assumes "on_message pf s msg = (s', None)"
    and "ambulance s' ''lat'' = Some (PFloat lat)"
    and "ambulance s' ''lng'' = Some (PFloat lng)"
    and "it \<in> set INTERSECTIONS"
    and "haversine lat lng (inter_lat it) (inter_lng it) = Inr d"
  shows "(lights s' (inter_name it) = Some ''green'' \<longleftrightarrow> fle d GREEN_DISTANCE_METERS)
       \<and> (lights s' (inter_name it) = Some ''red'' \<longleftrightarrow> \<not> fle d GREEN_DISTANCE_METERS)
       \<and> (d = Fin 200 \<longrightarrow> lights s' (inter_name it) = Some ''green'')
       \<and> (\<forall>x. d = Fin x \<and> 200 < x \<longrightarrow> lights s' (inter_name it) = Some ''red'')"
proof -
  from on_message_done [OF assms(1)] obtain lat' lng' ts where
    amb: "ambulance s' = [''lat'' \<mapsto> PFloat lat', ''lng'' \<mapsto> PFloat lng', ''time'' \<mapsto> ts]"
    and L: "\<forall>it \<in> set INTERSECTIONS.
                \<exists>d. haversine lat' lng' (inter_lat it) (inter_lng it) = Inr d
                  \<and> lights s' (inter_name it)
                    = Some (if fle d GREEN_DISTANCE_METERS then ''green'' else ''red'')"
    by blast
  from amb assms(2,3) have "lat' = lat" "lng' = lng" by simp_all
  with L assms(4,5)
  have l: "lights s' (inter_name it)
           = Some (if fle d GREEN_DISTANCE_METERS then ''green'' else ''red'')"
    by fastforce
  show ?thesis by (auto simp: l GREEN_DISTANCE_METERS_def)
qed

text \<open>
  C3, witness: a message at the position of Intersection A; the distance is 0 and the
  light is green.
\<close>

theorem threshold_inclusive_witness:
  "lights (fst (on_message (\<lambda>t. None) session_init
        (Inr (PDict [(''lat'', PFloat (Fin 12.9716)), (''lng'', PFloat (Fin 77.5946)),
                     (''time'', PStr ''t1'')])))) ''Intersection A'' = Some ''green''"
proof -
  let ?s' = "fst (on_message (\<lambda>t. None) session_init
        (Inr (PDict [(''lat'', PFloat (Fin 12.9716)), (''lng'', PFloat (Fin 77.5946)),
                     (''time'', PStr ''t1'')])))"
  have 1: "ambulance ?s' ''lat'' = Some (PFloat (Fin 12.9716))"
    and 2: "ambulance ?s' ''lng'' = Some (PFloat (Fin 77.5946))"
    by (simp_all only: ambulance_sample) simp_all
  have 3: "haversine (Fin 12.9716) (Fin 77.5946)
             (inter_lat \<lparr>inter_name = ''Intersection A'', inter_lat = Fin 12.9716,
                          inter_lng = Fin 77.5946\<rparr>)
             (inter_lng \<lparr>inter_name = ''Intersection A'', inter_lat = Fin 12.9716,
                          inter_lng = Fin 77.5946\<rparr>) = Inr (Fin 0)"
    by (simp add: haversine_same)
  from threshold_inclusive [OF on_message_sample 1 2 Intersection_A 3]
  show ?thesis by (simp add: GREEN_DISTANCE_METERS_def)
qed

subsection \<open>C4: a missing coordinate falls back to the stored one\<close>

text \<open>
  C4: when the state holds floats for both coordinates and the message is a JSON object,
  a message without \<open>lat\<close> whose \<open>lng\<close> converts to a float stores the previous
  latitude with the new longitude; a message without \<open>lng\<close> whose \<open>lat\<close> converts
  stores the new latitude with the previous longitude; a message with neither stores both
  previous coordinates. The value stored is the one held before, not a constant.
\<close>

theorem missing_coordinate_falls_back:
  assumes "ambulance s ''lat'' = Some (PFloat old_lat)"
    and "ambulance s ''lng'' = Some (PFloat old_lng)"
  shows "(map_of kvs1 ''lat'' = None \<and> map_of kvs1 ''lng'' = Some v1 \<and> py_float pf v1 = Inr x1
          \<longrightarrow> ambulance (fst (on_message pf s (Inr (PDict kvs1))))
              = [''lat'' \<mapsto> PFloat old_lat, ''lng'' \<mapsto> PFloat x1,
                 ''time'' \<mapsto> (case map_of kvs1 ''time'' of None \<Rightarrow> PNone | Some t \<Rightarrow> t)])
       \<and> (map_of kvs2 ''lng'' = None \<and> map_of kvs2 ''lat'' = Some v2 \<and> py_float pf v2 = Inr x2
          \<longrightarrow> ambulance (fst (on_message pf s (Inr (PDict kvs2))))
              = [''lat'' \<mapsto> PFloat x2, ''lng'' \<mapsto> PFloat old_lng,
                 ''time'' \<mapsto> (case map_of kvs2 ''time'' of None \<Rightarrow> PNone | Some t \<Rightarrow> t)])
       \<and> (map_of kvs3 ''lat'' = None \<and> map_of kvs3 ''lng'' = None
          \<longrightarrow> ambulance (fst (on_message pf s (Inr (PDict kvs3))))
              = [''lat'' \<mapsto> PFloat old_lat, ''lng'' \<mapsto> PFloat old_lng,
                 ''time'' \<mapsto> (case map_of kvs3 ''time'' of None \<Rightarrow> PNone | Some t \<Rightarrow> t)])"
proof (intro conjI impI)
  assume "map_of kvs1 ''lat'' = None \<and> map_of kvs1 ''lng'' = Some v1 \<and> py_float pf v1 = Inr x1"
  then have "read_fields pf s (Inr (PDict kvs1))
             = Inr (old_lat, x1, case map_of kvs1 ''time'' of None \<Rightarrow> PNone | Some t \<Rightarrow> t)"
    by (simp add: read_fields_dict [OF assms] bind_e_def)
  then show "ambulance (fst (on_message pf s (Inr (PDict kvs1))))
              = [''lat'' \<mapsto> PFloat old_lat, ''lng'' \<mapsto> PFloat x1,
                 ''time'' \<mapsto> (case map_of kvs1 ''time'' of None \<Rightarrow> PNone | Some t \<Rightarrow> t)]"
    by (rule ambulance_stored)
next
  assume "map_of kvs2 ''lng'' = None \<and> map_of kvs2 ''lat'' = Some v2 \<and> py_float pf v2 = Inr x2"
  then have "read_fields pf s (Inr (PDict kvs2))
             = Inr (x2, old_lng, case map_of kvs2 ''time'' of None \<Rightarrow> PNone | Some t \<Rightarrow> t)"
    by (simp add: read_fields_dict [OF assms] bind_e_def)
  then show "ambulance (fst (on_message pf s (Inr (PDict kvs2))))
              = [''lat'' \<mapsto> PFloat x2, ''lng'' \<mapsto> PFloat old_lng,
                 ''time'' \<mapsto> (case map_of kvs2 ''time'' of None \<Rightarrow> PNone | Some t \<Rightarrow> t)]"
    by (rule ambulance_stored)
next
  assume "map_of kvs3 ''lat'' = None \<and> map_of kvs3 ''lng'' = None"
  then have "read_fields pf s (Inr (PDict kvs3))
             = Inr (old_lat, old_lng, case map_of kvs3 ''time'' of None \<Rightarrow> PNone | Some t \<Rightarrow> t)"
    by (simp add: read_fields_dict [OF assms] bind_e_def)
  then show "ambulance (fst (on_message pf s (Inr (PDict kvs3))))
              = [''lat'' \<mapsto> PFloat old_lat, ''lng'' \<mapsto> PFloat old_lng,
                 ''time'' \<mapsto> (case map_of kvs3 ''time'' of None \<Rightarrow> PNone | Some t \<Rightarrow> t)]"
    by (rule ambulance_stored)
qed

text \<open>
  C4, witness: the state holds (10, 20), which is not the default position. A message
  with only \<open>lng = 30\<close> stores (10, 30), a message with only \<open>lat = 40\<close> stores
  (40, 20), and a message with only a time stores (10, 20).
\<close>

theorem missing_coordinate_falls_back_witness:
  "ambulance (fst (on_message (\<lambda>t. None)
       (session_init\<lparr>ambulance := [''lat'' \<mapsto> PFloat (Fin 10), ''lng'' \<mapsto> PFloat (Fin 20),
                                    ''time'' \<mapsto> PNone]\<rparr>)
       (Inr (PDict [(''lng'', PInt 30)]))))
   = [''lat'' \<mapsto> PFloat (Fin 10), ''lng'' \<mapsto> PFloat (Fin 30), ''time'' \<mapsto> PNone]
   \<and> ambulance (fst (on_message (\<lambda>t. None)
       (session_init\<lparr>ambulance := [''lat'' \<mapsto> PFloat (Fin 10), ''lng'' \<mapsto> PFloat (Fin 20),
                                    ''time'' \<mapsto> PNone]\<rparr>)
       (Inr (PDict [(''lat'', PFloat (Fin 40)), (''time'', PStr ''t2'')]))))
   = [''lat'' \<mapsto> PFloat (Fin 40), ''lng'' \<mapsto> PFloat (Fin 20), ''time'' \<mapsto> PStr ''t2'']
   \<and> ambulance (fst (on_message (\<lambda>t. None)
       (session_init\<lparr>ambulance := [''lat'' \<mapsto> PFloat (Fin 10), ''lng'' \<mapsto> PFloat (Fin 20),
                                    ''time'' \<mapsto> PNone]\<rparr>)
       (Inr (PDict [(''time'', PStr ''t3'')]))))
   = [''lat'' \<mapsto> PFloat (Fin 10), ''lng'' \<mapsto> PFloat (Fin 20), ''time'' \<mapsto> PStr ''t3'']"
proof -
  let ?s = "session_init\<lparr>ambulance := [''lat'' \<mapsto> PFloat (Fin 10), ''lng'' \<mapsto> PFloat (Fin 20),
                                    ''time'' \<mapsto> PNone]\<rparr>"
  have 1: "ambulance ?s ''lat'' = Some (PFloat (Fin 10))"
    and 2: "ambulance ?s ''lng'' = Some (PFloat (Fin 20))" by simp_all
  have 3: "py_float (\<lambda>t. None) (PInt 30) = Inr (Fin 30)" by simp
  from missing_coordinate_falls_back [OF 1 2,
      of "[(''lng'', PInt 30)]" "PInt 30" "\<lambda>t. None" "Fin 30"
         "[(''lat'', PFloat (Fin 40)), (''time'', PStr ''t2'')]" "PFloat (Fin 40)" "Fin 40"
         "[(''time'', PStr ''t3'')]"] 3
  show ?thesis by simp
qed

subsection \<open>C6: the distance from a point to itself\<close>

text \<open>
  C6, as stated, says that the distance from every pair of floats to itself is 0. A NaN
  latitude refutes it: the result is NaN.
\<close>

theorem haversine_nan_counterexample:
  "haversine NaN (Fin 0) NaN (Fin 0) = Inr NaN
   \<and> haversine NaN (Fin 0) NaN (Fin 0) \<noteq> Inr (Fin 0)"
  by (simp add: haversine_def radians_def bind_e_def)

text \<open>
  C6, amended: for every pair of finite floats, the distance from the pair to itself is
  exactly 0. Every operation on the way is exact in floating point as well: \<open>x - x\<close>,
  a product with 0, \<open>sin 0\<close>, \<open>sqrt 0\<close>, \<open>sqrt 1\<close> and \<open>atan2(0, 1)\<close>.
\<close>

theorem haversine_coincident_zero:
  "haversine (Fin lat) (Fin lon) (Fin lat) (Fin lon) = Inr (Fin 0)"
  by (rule haversine_same)

subsection \<open>C7: the distance is symmetric\<close>




subsection \<open>C8: an update recomputes every light\<close>

text \<open>
  C8: when a message has been processed to its end, the state holds two float
  coordinates, and for every intersection of the list the distance from them is computed
  and the light is \<open>"green"\<close> if it is at most 200.0 and \<open>"red"\<close> otherwise. No
  intersection is left out.
\<close>

theorem update_reestablishes_lights:
  assumes "on_message pf s msg = (s', None)"
  shows "\<exists>lat lng.
           ambulance s' ''lat'' = Some (PFloat lat) \<and> ambulance s' ''lng'' = Some (PFloat lng)
           \<and> (\<forall>it \<in> set INTERSECTIONS.
                \<exists>d. haversine lat lng (inter_lat it) (inter_lng it) = Inr d
                  \<and> lights s' (inter_name it)
                    = Some (if fle d GREEN_DISTANCE_METERS then ''green'' else ''red''))"
proof -
  from on_message_done [OF assms] obtain lat lng ts where
    amb: "ambulance s' = [''lat'' \<mapsto> PFloat lat, ''lng'' \<mapsto> PFloat lng, ''time'' \<mapsto> ts]"
    and L: "\<forall>it \<in> set INTERSECTIONS.
                \<exists>d. haversine lat lng (inter_lat it) (inter_lng it) = Inr d
                  \<and> lights s' (inter_name it)
                    = Some (if fle d GREEN_DISTANCE_METERS then ''green'' else ''red'')"
    by blast
  have "ambulance s' ''lat'' = Some (PFloat lat)" "ambulance s' ''lng'' = Some (PFloat lng)"
    by (simp_all add: amb)
  with L show ?thesis by blast
qed

text \<open>
  C8, witness: a message at the position of Intersection A is processed to its end; the
  light of Intersection A is green and all three intersections have a light.
\<close>

theorem update_reestablishes_lights_witness:
  "snd (on_message (\<lambda>t. None) session_init
        (Inr (PDict [(''lat'', PFloat (Fin 12.9716)), (''lng'', PFloat (Fin 77.5946)),
                     (''time'', PStr ''t1'')]))) = None
   \<and> lights (fst (on_message (\<lambda>t. None) session_init
        (Inr (PDict [(''lat'', PFloat (Fin 12.9716)), (''lng'', PFloat (Fin 77.5946)),
                     (''time'', PStr ''t1'')])))) ''Intersection A'' = Some ''green''
   \<and> {''Intersection A'', ''Intersection B'', ''Intersection C''}
       \<subseteq> dom (lights (fst (on_message (\<lambda>t. None) session_init
        (Inr (PDict [(''lat'', PFloat (Fin 12.9716)), (''lng'', PFloat (Fin 77.5946)),
                     (''time'', PStr ''t1'')])))))"
proof -
  let ?s' = "fst (on_message (\<lambda>t. None) session_init
        (Inr (PDict [(''lat'', PFloat (Fin 12.9716)), (''lng'', PFloat (Fin 77.5946)),
                     (''time'', PStr ''t1'')])))"
  from update_reestablishes_lights [OF on_message_sample, of "\<lambda>t. None"]
  obtain lat lng where
    amb: "ambulance ?s' ''lat'' = Some (PFloat lat)" "ambulance ?s' ''lng'' = Some (PFloat lng)"
    and L: "\<forall>it \<in> set INTERSECTIONS.
                \<exists>d. haversine lat lng (inter_lat it) (inter_lng it) = Inr d
                  \<and> lights ?s' (inter_name it)
                    = Some (if fle d GREEN_DISTANCE_METERS then ''green'' else ''red'')"
    by blast
  from amb have ll: "lat = Fin 12.9716" "lng = Fin 77.5946"
    unfolding ambulance_sample by simp_all
  from bspec [OF L Intersection_A]
  have A: "lights ?s' ''Intersection A'' = Some ''green''"
    by (simp add: ll haversine_same GREEN_DISTANCE_METERS_def)
  from L have "\<forall>it \<in> set INTERSECTIONS. inter_name it \<in> dom (lights ?s')" by fastforce
  then have D: "{''Intersection A'', ''Intersection B'', ''Intersection C''} \<subseteq> dom (lights ?s')"
    by (simp add: INTERSECTIONS_def)
  from A D on_message_sample [of "\<lambda>t. None"] show ?thesis by (simp add: prod_eq_iff)
qed

subsection \<open>C9: a missing time is stored as None\<close>

text \<open>
  C9: when a message without a \<open>time\<close> key has been processed to its end, the stored
  timestamp is \<open>None\<close>, whatever timestamp the state held before.
\<close>

theorem missing_time_stores_None:
  assumes "on_message pf s (Inr (PDict kvs)) = (s', None)"
    and "map_of kvs ''time'' = None"
  shows "ambulance s' ''time'' = Some PNone"
proof -
  from on_message_done [OF assms(1)] obtain lat lng ts where
    rf: "read_fields pf s (Inr (PDict kvs)) = Inr (lat, lng, ts)"
    and amb: "ambulance s' = [''lat'' \<mapsto> PFloat lat, ''lng'' \<mapsto> PFloat lng, ''time'' \<mapsto> ts]"
    by blast
  from rf assms(2) have "ts = PNone"
    by (auto simp: read_fields_def bind_e_def py_get_def split: sum.splits)
  with amb show ?thesis by simp
qed

text \<open>
  C9, witness: the state holds the timestamp \<open>"t0"\<close>; after a message with \<open>lat\<close>
  and \<open>lng\<close> only, the timestamp is \<open>None\<close>.
\<close>

theorem missing_time_stores_None_witness:
  "ambulance (session_init\<lparr>ambulance := [''lat'' \<mapsto> PFloat (Fin 10), ''lng'' \<mapsto> PFloat (Fin 20),
                                         ''time'' \<mapsto> PStr ''t0'']\<rparr>) ''time'' = Some (PStr ''t0'')
   \<and> ambulance (fst (on_message (\<lambda>t. None)
       (session_init\<lparr>ambulance := [''lat'' \<mapsto> PFloat (Fin 10), ''lng'' \<mapsto> PFloat (Fin 20),
                                    ''time'' \<mapsto> PStr ''t0'']\<rparr>)
       (Inr (PDict [(''lat'', PFloat (Fin 1)), (''lng'', PFloat (Fin 2))])))) ''time''
     = Some PNone"
proof -
  let ?s = "session_init\<lparr>ambulance := [''lat'' \<mapsto> PFloat (Fin 10), ''lng'' \<mapsto> PFloat (Fin 20),
                                    ''time'' \<mapsto> PStr ''t0'']\<rparr>"
  let ?kvs = "[(''lat'', PFloat (Fin 1)), (''lng'', PFloat (Fin 2))]"
  have "read_fields (\<lambda>t. None) ?s (Inr (PDict ?kvs)) = Inr (Fin 1, Fin 2, PNone)"
    by (simp add: read_fields_def bind_e_def py_get_def subscript_def)
  then have "snd (on_message (\<lambda>t. None) ?s (Inr (PDict ?kvs))) = None"
    by (rule on_message_finite)
  then have ok: "on_message (\<lambda>t. None) ?s (Inr (PDict ?kvs))
                 = (fst (on_message (\<lambda>t. None) ?s (Inr (PDict ?kvs))), None)"
    by (simp add: prod_eq_iff)
  have "map_of ?kvs ''time'' = None" by simp
  from missing_time_stores_None [OF ok this] show ?thesis by simp
qed

subsection \<open>C10: an update replaces the position record\<close>

text \<open>
  C10: the initial record has a \<open>speed\<close> key with value \<open>None\<close>. After a message
  processed to its end the record has exactly the keys \<open>lat\<close>, \<open>lng\<close> and
  \<open>time\<close>, and whatever messages follow, \<open>speed\<close> is not a key again.
\<close>

theorem update_replaces_record:
  "ambulance session_init ''speed'' = Some PNone
   \<and> (snd (on_message pf s msg) = None \<longrightarrow>
        dom (ambulance (fst (on_message pf s msg))) = {''lat'', ''lng'', ''time''}
        \<and> ''speed'' \<notin> dom (ambulance (run pf (fst (on_message pf s msg)) ms)))"
proof (intro conjI impI)
  show "ambulance session_init ''speed'' = Some PNone" by (simp add: session_init_def)
next
  assume "snd (on_message pf s msg) = None"
  then have "on_message pf s msg = (fst (on_message pf s msg), None)" by (simp add: prod_eq_iff)
  from on_message_done [OF this] obtain lat lng ts where
    amb: "ambulance (fst (on_message pf s msg))
          = [''lat'' \<mapsto> PFloat lat, ''lng'' \<mapsto> PFloat lng, ''time'' \<mapsto> ts]"
    by blast
  show d: "dom (ambulance (fst (on_message pf s msg))) = {''lat'', ''lng'', ''time''}"
    unfolding amb by auto
  then have "''speed'' \<notin> dom (ambulance (fst (on_message pf s msg)))" by simp
  then show "''speed'' \<notin> dom (ambulance (run pf (fst (on_message pf s msg)) ms))"
    by (rule run_speed)
qed

text \<open>
  C10, witness: the first message from the initial state, followed by a payload that is
  not JSON and a message with a latitude only.
\<close>

theorem update_replaces_record_witness:
  "ambulance session_init ''speed'' = Some PNone
   \<and> dom (ambulance (fst (on_message (\<lambda>t. None) session_init
        (Inr (PDict [(''lat'', PFloat (Fin 12.9716)), (''lng'', PFloat (Fin 77.5946)),
                     (''time'', PStr ''t1'')]))))) = {''lat'', ''lng'', ''time''}
   \<and> ''speed'' \<notin> dom (ambulance (run (\<lambda>t. None) (fst (on_message (\<lambda>t. None) session_init
        (Inr (PDict [(''lat'', PFloat (Fin 12.9716)), (''lng'', PFloat (Fin 77.5946)),
                     (''time'', PStr ''t1'')]))))
        [Inl JSONDecodeError, Inr (PDict [(''lat'', PInt 13)])]))"
proof -
  have ok: "snd (on_message (\<lambda>t. None) session_init
        (Inr (PDict [(''lat'', PFloat (Fin 12.9716)), (''lng'', PFloat (Fin 77.5946)),
                     (''time'', PStr ''t1'')]))) = None"
    by (rule on_message_finite [OF read_fields_sample])
  from update_replaces_record [of "\<lambda>t. None" session_init _
      "[Inl JSONDecodeError, Inr (PDict [(''lat'', PInt 13)])]"] ok
  show ?thesis by blast
qed

end
